theory Spec2Isabelle
  imports Complex_Main "HOL-Library.Char_ord" "HOL-Library.List_Lexorder"
begin

section \<open>The production ML system of \<^verbatim>\<open>production_ml_system.py\<close>\<close>

text \<open>
  The development embeds \<^verbatim>\<open>ModelManager\<close>, \<^verbatim>\<open>MLMonitor\<close> and
  \<^verbatim>\<open>ProductionMLSystem\<close>. Everything the Python code reads from outside is an
  explicit argument: the reading of the clock (\<^verbatim>\<open>datetime.now()\<close>), the outcome of
  fitting an estimator, and the files of the models directory. Floating point numbers are
  idealised as reals; the code only compares them, adds the constant 0.02, multiplies by
  0.5 and averages.
\<close>

subsection \<open>Clock readings and their text forms\<close>

text \<open>A \<^verbatim>\<open>datetime\<close> object: the naive local time in its seven fields.\<close>

record datetime =
  dt_year :: nat
  dt_month :: nat
  dt_day :: nat
  dt_hour :: nat
  dt_minute :: nat
  dt_second :: nat
  dt_microsecond :: nat

definition is_leap :: "nat \<Rightarrow> bool" where
  "is_leap y = (y mod 4 = 0 \<and> (y mod 100 \<noteq> 0 \<or> y mod 400 = 0))"

definition days_in_month :: "nat \<Rightarrow> nat \<Rightarrow> nat" where
  "days_in_month y m =
     (if m = 2 then (if is_leap y then 29 else 28)
      else if m = 4 \<or> m = 6 \<or> m = 9 \<or> m = 11 then 30 else 31)"

text \<open>The values a \<^verbatim>\<open>datetime\<close> can hold (years 1 to 9999).\<close>

definition valid_datetime :: "datetime \<Rightarrow> bool" where
  "valid_datetime d =
     (1 \<le> dt_year d \<and> dt_year d \<le> 9999 \<and> 1 \<le> dt_month d \<and> dt_month d \<le> 12 \<and>
      1 \<le> dt_day d \<and> dt_day d \<le> days_in_month (dt_year d) (dt_month d) \<and>
      dt_hour d < 24 \<and> dt_minute d < 60 \<and> dt_second d < 60 \<and> dt_microsecond d < 1000000)"

text \<open>
  Chronological order of two readings: the order of the field tuples, which is how
  \<^verbatim>\<open>datetime\<close> objects compare.
\<close>

definition dt_fields :: "datetime \<Rightarrow> nat list" where
  "dt_fields d =
     [dt_year d, dt_month d, dt_day d, dt_hour d, dt_minute d, dt_second d, dt_microsecond d]"

definition dt_less :: "datetime \<Rightarrow> datetime \<Rightarrow> bool" where
  "dt_less a b = (dt_fields a < dt_fields b)"

text \<open>
  Zero-padded decimal fields, as \<^verbatim>\<open>%02d\<close>, \<^verbatim>\<open>%04d\<close> and \<^verbatim>\<open>%06d\<close> print a number
  that fits the width (every field of a valid \<^verbatim>\<open>datetime\<close> does).
\<close>

definition digit_char :: "nat \<Rightarrow> char" where
  "digit_char d = ''0123456789'' ! d"

primrec zpad :: "nat \<Rightarrow> nat \<Rightarrow> string" where
  "zpad 0 n = []"
| "zpad (Suc w) n = zpad w (n div 10) @ [digit_char (n mod 10)]"

text \<open>
  \<^verbatim>\<open>datetime.isoformat()\<close>: \<^verbatim>\<open>YYYY-MM-DDTHH:MM:SS\<close>, followed by \<^verbatim>\<open>.ffffff\<close> only
  when the microsecond field is not zero.
\<close>

definition isoformat :: "datetime \<Rightarrow> string" where
  "isoformat d =
     zpad 4 (dt_year d) @ ''-'' @ zpad 2 (dt_month d) @ ''-'' @ zpad 2 (dt_day d) @ ''T'' @
     zpad 2 (dt_hour d) @ '':'' @ zpad 2 (dt_minute d) @ '':'' @ zpad 2 (dt_second d) @
     (if dt_microsecond d = 0 then [] else ''.'' @ zpad 6 (dt_microsecond d))"

text \<open>
  \<^verbatim>\<open>strftime("%Y%m%d_%H%M%S")\<close>, the version identifier of \<^verbatim>\<open>train_new_model\<close>. The
  microsecond field is not printed. (For years below 1000 the C library decides whether
  \<^verbatim>\<open>%Y\<close> is padded; the clock of a running system is far from there.)
\<close>

definition strftime_version :: "datetime \<Rightarrow> string" where
  "strftime_version d =
     zpad 4 (dt_year d) @ zpad 2 (dt_month d) @ zpad 2 (dt_day d) @ ''_'' @
     zpad 2 (dt_hour d) @ zpad 2 (dt_minute d) @ zpad 2 (dt_second d)"

text \<open>
  \<^verbatim>\<open>d - timedelta(days=n)\<close> keeps the time of day and moves the date by whole calendar
  days; a date outside the years 1 to 9999 raises \<^verbatim>\<open>OverflowError\<close> (here \<open>None\<close>).
\<close>

definition date_pred :: "datetime \<Rightarrow> datetime option" where
  "date_pred d =
     (if 1 < dt_day d then Some (d\<lparr>dt_day := dt_day d - 1\<rparr>)
      else if 1 < dt_month d then
        Some (d\<lparr>dt_month := dt_month d - 1,
                dt_day := days_in_month (dt_year d) (dt_month d - 1)\<rparr>)
      else if 1 < dt_year d then
        Some (d\<lparr>dt_year := dt_year d - 1, dt_month := 12, dt_day := 31\<rparr>)
      else None)"

definition date_succ :: "datetime \<Rightarrow> datetime option" where
  "date_succ d =
     (if dt_day d < days_in_month (dt_year d) (dt_month d) then Some (d\<lparr>dt_day := dt_day d + 1\<rparr>)
      else if dt_month d < 12 then Some (d\<lparr>dt_month := dt_month d + 1, dt_day := 1\<rparr>)
      else if dt_year d < 9999 then
        Some (d\<lparr>dt_year := dt_year d + 1, dt_month := 1, dt_day := 1\<rparr>)
      else None)"

primrec days_back :: "nat \<Rightarrow> datetime \<Rightarrow> datetime option" where
  "days_back 0 d = Some d"
| "days_back (Suc n) d = (case date_pred d of None \<Rightarrow> None | Some d' \<Rightarrow> days_back n d')"

primrec days_forward :: "nat \<Rightarrow> datetime \<Rightarrow> datetime option" where
  "days_forward 0 d = Some d"
| "days_forward (Suc n) d = (case date_succ d of None \<Rightarrow> None | Some d' \<Rightarrow> days_forward n d')"

definition dt_minus_days :: "datetime \<Rightarrow> int \<Rightarrow> datetime option" where
  "dt_minus_days d days =
     (if 0 \<le> days then days_back (nat days) d else days_forward (nat (- days)) d)"

subsection \<open>Errors\<close>

text \<open>
  The exceptions that can leave a method. \<open>ValueError\<close> is the
  \<^verbatim>\<open>ValueError("No model deployed")\<close> of \<^verbatim>\<open>predict\<close>, \<open>RuntimeError\<close> the
  \<^verbatim>\<open>RuntimeError("System not initialized...")\<close> of \<^verbatim>\<open>predict_house_price\<close>,
  \<open>IntegrityError\<close> the primary key violation of an \<^verbatim>\<open>INSERT\<close>, and \<open>LibraryError\<close>
  any exception raised inside joblib, json or scikit-learn.
\<close>

datatype error =
    ValueError
  | RuntimeError
  | IntegrityError
  | OverflowError
  | FileNotFoundError
  | KeyError
  | IndexError
  | LibraryError

subsection \<open>Estimators, files and tables\<close>

text \<open>
  A fitted estimator as the code uses it: \<^verbatim>\<open>predict\<close> on a two-dimensional array
  (\<open>None\<close> when it raises) and the optional attribute \<^verbatim>\<open>feature_importances_\<close>.
\<close>

record model =
  m_predict :: "real list list \<Rightarrow> real list option"
  m_feature_importances :: "real list option"

text \<open>What fitting and evaluating an estimator on the training data produced.\<close>

record training =
  tr_model :: model
  tr_r2 :: real
  tr_rmse :: real
  tr_samples :: nat

datatype status = Trained | Active | Inactive

text \<open>The dictionary written to \<^verbatim>\<open>metadata_<version>.json\<close>; a file from elsewhere
  may lack the key \<^verbatim>\<open>r2_score\<close>.\<close>

record metadata =
  md_version :: string
  md_created_at :: string
  md_r2_score :: "real option"
  md_rmse :: real
  md_training_samples :: nat
  md_model_path :: string
  md_status :: status

text \<open>A file of the models directory: readable with its content, or one whose loading
  raises.\<close>

datatype 'a disk_file = Corrupt | Content 'a

text \<open>A row of the table \<^verbatim>\<open>model_versions\<close> (primary key \<open>mv_version\<close>).\<close>

record version_row =
  mv_version :: string
  mv_created_at :: string
  mv_r2_score :: real
  mv_rmse :: real
  mv_training_samples :: nat
  mv_status :: status

text \<open>A row of the table \<^verbatim>\<open>predictions\<close>; the autoincrement id is the position in
  the list.\<close>

record prediction_row =
  pr_timestamp :: string
  pr_model_version :: "string option"
  pr_input_features :: "real list list"
  pr_prediction :: real
  pr_confidence :: real

text \<open>A row of the table \<^verbatim>\<open>model_performance\<close>.\<close>

record performance_row =
  pf_timestamp :: string
  pf_model_version :: "string option"
  pf_metric_name :: string
  pf_metric_value :: real

subsection \<open>ModelManager\<close>

text \<open>
  The object's attributes, the two kinds of file under \<open>models_dir\<close> (keyed by the
  version in their name) and the three tables of the database.
\<close>

record manager =
  models_dir :: string
  current_model :: "model option"
  current_version :: "string option"
  model_metadata :: "metadata option"
  model_files :: "string \<rightharpoonup> model disk_file"
  metadata_files :: "string \<rightharpoonup> metadata disk_file"
  model_versions :: "version_row list"
  predictions :: "prediction_row list"
  model_performance :: "performance_row list"

text \<open>\<^verbatim>\<open>ModelManager.__init__\<close> on an empty directory and an empty database;
  \<open>model_metadata = None\<close> is the empty dictionary.\<close>

definition init_manager :: "string \<Rightarrow> manager" where
  "init_manager dir =
     \<lparr>models_dir = dir, current_model = None, current_version = None, model_metadata = None,
      model_files = Map.empty, metadata_files = Map.empty,
      model_versions = [], predictions = [], model_performance = []\<rparr>"

definition model_path :: "string \<Rightarrow> string \<Rightarrow> string" where
  "model_path dir version = dir @ ''/model_'' @ version @ ''.pkl''"

text \<open>
  \<^verbatim>\<open>train_new_model\<close>. \<open>now1\<close> and \<open>now2\<close> are its two clock readings, \<open>tr\<close> the
  outcome of fitting and scoring (\<open>None\<close> when scikit-learn raises, before anything is
  written). Both files are written before the \<^verbatim>\<open>INSERT\<close>, which fails on a version
  that is already a key of the table.
\<close>

definition train_new_model ::
    "datetime \<Rightarrow> datetime \<Rightarrow> training option \<Rightarrow> manager \<Rightarrow> (error + string) \<times> manager" where
  "train_new_model now1 now2 tr s =
     (case tr of
        None \<Rightarrow> (Inl LibraryError, s)
      | Some t \<Rightarrow>
          let version = strftime_version now1;
              md = \<lparr>md_version = version, md_created_at = isoformat now2,
                    md_r2_score = Some (tr_r2 t), md_rmse = tr_rmse t,
                    md_training_samples = tr_samples t,
                    md_model_path = model_path (models_dir s) version, md_status = Trained\<rparr>;
              s1 = s\<lparr>model_files := (model_files s)(version \<mapsto> Content (tr_model t)),
                     metadata_files := (metadata_files s)(version \<mapsto> Content md)\<rparr>
          in if version \<in> set (map mv_version (model_versions s1)) then (Inl IntegrityError, s1)
             else (Inr version,
                   s1\<lparr>model_versions := model_versions s1 @
                        [\<lparr>mv_version = version, mv_created_at = md_created_at md,
                          mv_r2_score = tr_r2 t, mv_rmse = tr_rmse t,
                          mv_training_samples = tr_samples t, mv_status = Trained\<rparr>]\<rparr>))"

text \<open>The two \<^verbatim>\<open>UPDATE\<close> statements of \<^verbatim>\<open>deploy_model\<close>, in their order.\<close>

definition set_active :: "string \<Rightarrow> version_row list \<Rightarrow> version_row list" where
  "set_active version rows =
     map (\<lambda>r. if mv_version r = version then r\<lparr>mv_status := Active\<rparr> else r) rows"

definition set_others_inactive :: "string \<Rightarrow> version_row list \<Rightarrow> version_row list" where
  "set_others_inactive version rows =
     map (\<lambda>r. if mv_version r \<noteq> version then r\<lparr>mv_status := Inactive\<rparr> else r) rows"

text \<open>
  \<^verbatim>\<open>deploy_model\<close>. Every exception is caught and turned into the return value
  \<open>False\<close>; what was assigned before the exception stays assigned.
\<close>

definition deploy_model :: "string \<Rightarrow> manager \<Rightarrow> bool \<times> manager" where
  "deploy_model version s =
     (if model_files s version = None \<or> metadata_files s version = None then (False, s)
      else
        (case model_files s version of
           Some (Content m) \<Rightarrow>
             (let s1 = s\<lparr>current_model := Some m\<rparr> in
              (case metadata_files s version of
                 Some (Content md) \<Rightarrow>
                   (let s2 = s1\<lparr>model_metadata := Some md\<rparr>;
                        s3 = s2\<lparr>current_version := Some version\<rparr>
                    in (True,
                        s3\<lparr>model_versions :=
                             set_others_inactive version (set_active version (model_versions s3))\<rparr>))
               | _ \<Rightarrow> (False, s1)))
         | _ \<Rightarrow> (False, s)))"

text \<open>The dictionary returned by \<^verbatim>\<open>predict\<close>.\<close>

record prediction_result =
  res_prediction :: real
  res_confidence :: real
  res_model_version :: "string option"
  res_timestamp :: string

text \<open>\<^verbatim>\<open>np.mean\<close> of a non-empty array.\<close>

definition mean :: "real list \<Rightarrow> real" where
  "mean xs = sum_list xs / real (length xs)"

definition confidence_of :: "model \<Rightarrow> real" where
  "confidence_of m =
     (case m_feature_importances m of Some imps \<Rightarrow> mean imps | None \<Rightarrow> 0.8)"

text \<open>\<^verbatim>\<open>predict\<close>; the row is logged with the values the estimator gave.\<close>

definition predict ::
    "real list list \<Rightarrow> bool \<Rightarrow> datetime \<Rightarrow> manager \<Rightarrow> (error + prediction_result) \<times> manager" where
  "predict features log_prediction now s =
     (case current_model s of
        None \<Rightarrow> (Inl ValueError, s)
      | Some m \<Rightarrow>
          (case m_predict m features of
             None \<Rightarrow> (Inl LibraryError, s)
           | Some [] \<Rightarrow> (Inl IndexError, s)
           | Some (prediction # _) \<Rightarrow>
               let confidence = confidence_of m;
                   result = \<lparr>res_prediction = prediction, res_confidence = confidence,
                             res_model_version = current_version s,
                             res_timestamp = isoformat now\<rparr>
               in (Inr result,
                   if log_prediction then
                     s\<lparr>predictions := predictions s @
                         [\<lparr>pr_timestamp = res_timestamp result,
                           pr_model_version = current_version s,
                           pr_input_features = features,
                           pr_prediction = prediction, pr_confidence = confidence\<rparr>]\<rparr>
                   else s)))"

text \<open>
  \<^verbatim>\<open>get_model_performance\<close>. The query keeps the rows whose timestamp text is greater
  than the cutoff text and groups them by version; SQL leaves the order of the groups
  open, here it is the order of \<open>remdups\<close>. The loop over the result rows follows.
\<close>

record model_entry =
  me_version :: "string option"
  me_prediction_count :: nat
  me_avg_confidence :: real

record performance =
  period_days :: int
  models :: "model_entry list"
  total_predictions :: nat

definition select_performance ::
    "string \<Rightarrow> prediction_row list \<Rightarrow> (nat \<times> real \<times> string option) list" where
  "select_performance cutoff_date rows =
     (let sel = filter (\<lambda>r. cutoff_date < pr_timestamp r) rows
      in map (\<lambda>v. let g = filter (\<lambda>r. pr_model_version r = v) sel
                  in (length g, mean (map pr_confidence g), v))
             (remdups (map pr_model_version sel)))"

fun collect_rows :: "(nat \<times> real \<times> string option) list \<Rightarrow> performance \<Rightarrow> performance" where
  "collect_rows [] p = p"
| "collect_rows ((count, avg_conf, version) # rows) p =
     collect_rows rows
       (p\<lparr>models := models p @
             [\<lparr>me_version = version, me_prediction_count = count, me_avg_confidence = avg_conf\<rparr>],
          total_predictions := total_predictions p + count\<rparr>)"

definition get_model_performance :: "datetime \<Rightarrow> int \<Rightarrow> manager \<Rightarrow> error + performance" where
  "get_model_performance now days s =
     (case dt_minus_days now days of
        None \<Rightarrow> Inl OverflowError
      | Some cutoff \<Rightarrow>
          Inr (collect_rows (select_performance (isoformat cutoff) (predictions s))
                 \<lparr>period_days = days, models = [], total_predictions = 0\<rparr>))"

subsection \<open>MLMonitor\<close>

text \<open>
  The monitor's attributes, and the number of threads that \<^verbatim>\<open>start_monitoring\<close> has
  started and that have not left \<^verbatim>\<open>_monitor_loop\<close> yet.
\<close>

record monitor =
  check_interval :: nat
  monitoring :: bool
  performance_threshold :: real
  monitor_threads :: nat

definition init_monitor :: "nat \<Rightarrow> monitor" where
  "init_monitor interval =
     \<lparr>check_interval = interval, monitoring = False, performance_threshold = 0.7,
      monitor_threads = 0\<rparr>"

definition start_monitoring :: "monitor \<Rightarrow> monitor" where
  "start_monitoring m = m\<lparr>monitoring := True, monitor_threads := monitor_threads m + 1\<rparr>"

definition stop_monitoring :: "monitor \<Rightarrow> monitor" where
  "stop_monitoring m = m\<lparr>monitoring := False\<rparr>"

text \<open>\<^verbatim>\<open>_log_performance_alert\<close> and \<^verbatim>\<open>_check_model_health\<close>.\<close>

definition log_performance_alert :: "datetime \<Rightarrow> real \<Rightarrow> manager \<Rightarrow> manager" where
  "log_performance_alert now confidence s =
     s\<lparr>model_performance := model_performance s @
         [\<lparr>pf_timestamp = isoformat now, pf_model_version = current_version s,
           pf_metric_name = ''confidence_alert'', pf_metric_value = confidence\<rparr>]\<rparr>"

definition check_model_health ::
    "datetime \<Rightarrow> datetime \<Rightarrow> monitor \<Rightarrow> manager \<Rightarrow> (error + unit) \<times> manager" where
  "check_model_health now1 now2 mon s =
     (case get_model_performance now1 1 s of
        Inl e \<Rightarrow> (Inl e, s)
      | Inr performance \<Rightarrow>
          if 50 < total_predictions performance then
            (let avg_confidence = mean (map me_avg_confidence (models performance))
             in if avg_confidence < performance_threshold mon
                then (Inr (), log_performance_alert now2 avg_confidence s)
                else (Inr (), s))
          else (Inr (), s))"

text \<open>
  One test of \<^verbatim>\<open>while self.monitoring\<close> by one of the monitor's threads, with the loop
  body when the flag is set (an exception of the check is caught and logged); the thread
  ends when the flag is clear.
\<close>

definition monitor_loop_step ::
    "datetime \<Rightarrow> datetime \<Rightarrow> monitor \<times> manager \<Rightarrow> monitor \<times> manager" where
  "monitor_loop_step now1 now2 ms =
     (case ms of (mon, s) \<Rightarrow>
        if monitoring mon then (mon, snd (check_model_health now1 now2 mon s))
        else (mon\<lparr>monitor_threads := monitor_threads mon - 1\<rparr>, s))"

subsection \<open>ProductionMLSystem\<close>

text \<open>A fitted \<^verbatim>\<open>StandardScaler\<close>: \<^verbatim>\<open>mean_\<close> and \<^verbatim>\<open>scale_\<close>, one entry per
  feature.\<close>

record scaler =
  sc_mean :: "real list"
  sc_scale :: "real list"

text \<open>\<^verbatim>\<open>transform\<close> raises when a row has another number of features.\<close>

definition scaler_transform :: "scaler \<Rightarrow> real list list \<Rightarrow> real list list option" where
  "scaler_transform sc rows =
     (if list_all (\<lambda>row. length row = length (sc_mean sc)) rows then
        Some (map (\<lambda>row. map (\<lambda>(x, mu, sigma). (x - mu) / sigma)
                             (zip row (zip (sc_mean sc) (sc_scale sc)))) rows)
      else None)"

text \<open>The system; \<open>sys_scaler = None\<close> is the scaler before \<^verbatim>\<open>fit\<close>.\<close>

record system =
  model_manager :: manager
  sys_monitor :: monitor
  sys_scaler :: "scaler option"
  is_initialized :: bool

definition init_system :: system where
  "init_system =
     \<lparr>model_manager = init_manager ''models'', sys_monitor = init_monitor 3600,
      sys_scaler = None, is_initialized = False\<rparr>"

text \<open>
  \<^verbatim>\<open>initialize_system\<close>; \<open>fitted\<close> is the scaler after \<^verbatim>\<open>fit\<close> on the training data
  (\<open>None\<close> when fitting raises). The result of \<^verbatim>\<open>deploy_model\<close> is not looked at.
\<close>

definition initialize_system ::
    "scaler option \<Rightarrow> datetime \<Rightarrow> datetime \<Rightarrow> training option \<Rightarrow> system \<Rightarrow> (error + unit) \<times> system" where
  "initialize_system fitted now1 now2 tr sys =
     (case fitted of
        None \<Rightarrow> (Inl LibraryError, sys)
      | Some sc \<Rightarrow>
          let sys1 = sys\<lparr>sys_scaler := Some sc\<rparr> in
          (case train_new_model now1 now2 tr (model_manager sys1) of
             (Inl e, mm1) \<Rightarrow> (Inl e, sys1\<lparr>model_manager := mm1\<rparr>)
           | (Inr version, mm1) \<Rightarrow>
               (Inr (),
                sys1\<lparr>model_manager := snd (deploy_model version mm1),
                      sys_monitor := start_monitoring (sys_monitor sys1),
                      is_initialized := True\<rparr>)))"

text \<open>The dictionary returned by \<^verbatim>\<open>predict_house_price\<close>: the one of \<^verbatim>\<open>predict\<close>
  with the key \<^verbatim>\<open>input\<close> added.\<close>

record price_result = prediction_result +
  res_input :: "real \<times> int \<times> int"

definition predict_house_price ::
    "real \<Rightarrow> int \<Rightarrow> int \<Rightarrow> datetime \<Rightarrow> system \<Rightarrow> (error + price_result) \<times> system" where
  "predict_house_price house_size bedrooms age now sys =
     (if \<not> is_initialized sys then (Inl RuntimeError, sys)
      else
        (case sys_scaler sys of
           None \<Rightarrow> (Inl LibraryError, sys)
         | Some sc \<Rightarrow>
             (case scaler_transform sc [[house_size, real_of_int bedrooms, real_of_int age]] of
                None \<Rightarrow> (Inl LibraryError, sys)
              | Some features_scaled \<Rightarrow>
                  (case predict features_scaled True now (model_manager sys) of
                     (Inl e, mm1) \<Rightarrow> (Inl e, sys\<lparr>model_manager := mm1\<rparr>)
                   | (Inr result, mm1) \<Rightarrow>
                       let result1 =
                             (if res_prediction result < 0
                              then result\<lparr>res_prediction := 50000,
                                          res_confidence := res_confidence result * 0.5\<rparr>
                              else result)
                       in (Inr (prediction_result.extend result1
                                  \<lparr>res_input = (house_size, bedrooms, age)\<rparr>),
                           sys\<lparr>model_manager := mm1\<rparr>)))))"




text \<open>\<^verbatim>\<open>shutdown\<close> stops the monitor (closing the connection is not modelled).\<close>

definition shutdown :: "system \<Rightarrow> system" where
  "shutdown sys = sys\<lparr>sys_monitor := stop_monitoring (sys_monitor sys)\<rparr>"

subsection \<open>Runs of the manager\<close>



text \<open>
  The window in the spec's words: of the logged records, each with the clock reading it
  was logged at, those whose reading is strictly later than the cutoff. \<open>logged_at\<close>
  says that the timestamps of the rows are the ISO texts of these readings.
\<close>

definition spec_window :: "datetime \<Rightarrow> prediction_row list \<Rightarrow> datetime list \<Rightarrow> prediction_row list" where
  "spec_window cutoff rows readings = map fst (filter (\<lambda>(r, t). dt_less cutoff t) (zip rows readings))"

definition logged_at :: "prediction_row list \<Rightarrow> datetime list \<Rightarrow> bool" where
  "logged_at rows readings =
     list_all2 (\<lambda>r t. pr_timestamp r = isoformat t \<and> valid_datetime t) rows readings"

text \<open>Two clock readings within the same second of the same day.\<close>

definition same_second :: "datetime \<Rightarrow> datetime \<Rightarrow> bool" where
  "same_second a b =
     (dt_year a = dt_year b \<and> dt_month a = dt_month b \<and> dt_day a = dt_day b \<and>
      dt_hour a = dt_hour b \<and> dt_minute a = dt_minute b \<and> dt_second a = dt_second b)"


subsection \<open>A concrete run\<close>

text \<open>
  An estimator, a scaler, clock readings on 8 March 2025 at 12:00 and the managers after
  one training, after the metadata file of that version has become unreadable, and after
  two trainings thirty seconds apart.
\<close>

definition ex_model :: model where
  "ex_model = \<lparr>m_predict = (\<lambda>rows. Some (map sum_list rows)),
               m_feature_importances = Some [1/2, 1/4, 1/4]\<rparr>"

definition ex_training :: training where
  "ex_training = \<lparr>tr_model = ex_model, tr_r2 = 0.9, tr_rmse = 10000, tr_samples = 800\<rparr>"

definition ex_scaler :: scaler where
  "ex_scaler = \<lparr>sc_mean = [2000, 3, 20], sc_scale = [500, 1, 10]\<rparr>"

definition ex_time :: "nat \<Rightarrow> nat \<Rightarrow> datetime" where
  "ex_time s us = \<lparr>dt_year = 2025, dt_month = 3, dt_day = 8, dt_hour = 12, dt_minute = 0,
                   dt_second = s, dt_microsecond = us\<rparr>"

definition ex_trained :: manager where
  "ex_trained =
     snd (train_new_model (ex_time 0 0) (ex_time 0 500) (Some ex_training) (init_manager ''models''))"

definition ex_damaged :: manager where
  "ex_damaged =
     ex_trained\<lparr>metadata_files := (metadata_files ex_trained)(''20250308_120000'' \<mapsto> Corrupt)\<rparr>"

definition ex_two :: manager where
  "ex_two = snd (train_new_model (ex_time 30 0) (ex_time 30 500) (Some ex_training) ex_trained)"

text \<open>The first version deployed, and then the model file of the second unreadable.\<close>

definition ex_deployed :: manager where
  "ex_deployed = snd (deploy_model ''20250308_120000'' ex_two)"


text \<open>The system after \<^verbatim>\<open>initialize_system\<close>.\<close>

definition ex_system :: system where
  "ex_system =
     snd (initialize_system (Some ex_scaler) (ex_time 0 0) (ex_time 0 500) (Some ex_training)
            init_system)"

text \<open>
  A prediction log: the first version serves three predictions, on 20 February, on
  26 February at 12:00:00 and five microseconds later; then the second version is deployed
  and serves one on 8 March.
\<close>

definition ex_day :: "nat \<Rightarrow> nat \<Rightarrow> nat \<Rightarrow> datetime" where
  "ex_day m d us = \<lparr>dt_year = 2025, dt_month = m, dt_day = d, dt_hour = 12, dt_minute = 0,
                    dt_second = 0, dt_microsecond = us\<rparr>"

definition ex_times :: "datetime list" where
  "ex_times = [ex_day 2 20 0, ex_day 2 26 0, ex_day 2 26 5, ex_day 3 8 0]"

definition ex_logged :: manager where
  "ex_logged =
     snd (predict [[0, 0, 0]] True (ex_day 3 8 0)
       (snd (deploy_model ''20250308_120030''
         (snd (predict [[0, 0, 0]] True (ex_day 2 26 5)
           (snd (predict [[0, 0, 0]] True (ex_day 2 26 0)
             (snd (predict [[0, 0, 0]] True (ex_day 2 20 0) ex_deployed)))))))))"

section \<open>Properties\<close>

subsection \<open>Evaluating the text forms\<close>

lemma zpad2: "zpad 2 n = [digit_char (n div 10 mod 10), digit_char (n mod 10)]"
  by (simp add: numeral_2_eq_2)

lemma zpad4:
  "zpad 4 n = [digit_char (n div 1000 mod 10), digit_char (n div 100 mod 10),
               digit_char (n div 10 mod 10), digit_char (n mod 10)]"
proof -
  have four: "(4::nat) = Suc (Suc (Suc (Suc 0)))" by simp
  have d: "n div 10 div 10 = n div 100" "n div 100 div 10 = n div 1000"
    by (simp_all add: div_mult2_eq[symmetric])
  show ?thesis unfolding four by (simp add: d)
qed

lemma zpad6:
  "zpad 6 n = [digit_char (n div 100000 mod 10), digit_char (n div 10000 mod 10),
               digit_char (n div 1000 mod 10), digit_char (n div 100 mod 10),
               digit_char (n div 10 mod 10), digit_char (n mod 10)]"
proof -
  have six: "(6::nat) = Suc (Suc (Suc (Suc (Suc (Suc 0)))))" by simp
  have d: "n div 10 div 10 = n div 100" "n div 100 div 10 = n div 1000"
     "n div 1000 div 10 = n div 10000" "n div 10000 div 10 = n div 100000"
    by (simp_all add: div_mult2_eq[symmetric])
  show ?thesis unfolding six by (simp add: d)
qed

lemma ex_version0: "strftime_version (ex_time 0 us) = ''20250308_120000''"
  by (simp add: strftime_version_def ex_time_def zpad2 zpad4 digit_char_def)

lemma ex_version30: "strftime_version (ex_time 30 us) = ''20250308_120030''"
  by (simp add: strftime_version_def ex_time_def zpad2 zpad4 digit_char_def)

subsection \<open>Zero-padded fields: order and injectivity\<close>

lemma digits_sorted: "sorted_wrt (<) ''0123456789''"
  by simp

lemma digit_char_mono:
  assumes "i < j" and "j < 10"
  shows "digit_char i < digit_char j"
proof -
  have "j < length ''0123456789''" using assms by simp
  from sorted_wrt_nth_less[OF digits_sorted assms(1) this] show ?thesis
    by (simp only: digit_char_def)
qed

lemma digit_char_less_iff:
  assumes "i < 10" and "j < 10"
  shows "digit_char i < digit_char j \<longleftrightarrow> i < j"
proof
  assume l: "digit_char i < digit_char j"
  show "i < j"
  proof (rule ccontr)
    assume "\<not> i < j"
    then consider "i = j" | "j < i" by force
    then show False
    proof cases
      case 1 with l show False by simp
    next
      case 2
      from digit_char_mono[OF 2 assms(1)] l show False by simp
    qed
  qed
next
  assume "i < j" then show "digit_char i < digit_char j"
    using assms digit_char_mono by blast
qed

lemma digit_char_eq_iff:
  assumes "i < 10" and "j < 10"
  shows "digit_char i = digit_char j \<longleftrightarrow> i = j"
proof
  assume e: "digit_char i = digit_char j"
  show "i = j"
  proof (rule ccontr)
    assume "i \<noteq> j"
    then consider "i < j" | "j < i" by force
    then show False
    proof cases
      case 1 from digit_char_mono[OF 1 assms(2)] e show False by simp
    next
      case 2 from digit_char_mono[OF 2 assms(1)] e show False by simp
    qed
  qed
qed simp

lemma length_zpad [simp]: "length (zpad w n) = w"
  by (induction w arbitrary: n) simp_all

lemma lex_append:
  fixes xs ys :: "'a::linorder list"
  assumes "length xs = length ys"
  shows "xs @ us < ys @ vs \<longleftrightarrow> xs < ys \<or> xs = ys \<and> us < vs"
  using assms by (induction xs ys rule: list_induct2) auto



lemma div10_bound:
  fixes n :: nat
  assumes "n < 10 ^ Suc w"
  shows "n div 10 < 10 ^ w"
proof -
  from assms have "n < 10 ^ w * 10" by (simp add: mult.commute)
  then show ?thesis by (rule less_mult_imp_div_less)
qed

lemma divmod10_eq:
  fixes n m :: nat
  shows "(n div 10 = m div 10 \<and> n mod 10 = m mod 10) = (n = m)"
proof
  assume "n div 10 = m div 10 \<and> n mod 10 = m mod 10"
  then have "10 * (n div 10) + n mod 10 = 10 * (m div 10) + m mod 10" by simp
  then show "n = m" by (simp only: mult_div_mod_eq)
qed simp

lemma lex_pair_nat:
  fixes a b c d :: nat
  assumes "b < 10" and "d < 10"
  shows "(a < c \<or> a = c \<and> b < d) = (10 * a + b < 10 * c + d)"
  using assms by linarith

lemma divmod10_less:
  fixes n m :: nat
  shows "(n div 10 < m div 10 \<or> n div 10 = m div 10 \<and> n mod 10 < m mod 10) = (n < m)"
proof -
  have "(n div 10 < m div 10 \<or> n div 10 = m div 10 \<and> n mod 10 < m mod 10) =
      (10 * (n div 10) + n mod 10 < 10 * (m div 10) + m mod 10)"
    by (rule lex_pair_nat) simp_all
  then show ?thesis by (simp only: mult_div_mod_eq)
qed


lemma zpad_eq_iff:
  assumes "n < 10 ^ w" and "m < 10 ^ w"
  shows "zpad w n = zpad w m \<longleftrightarrow> n = m"
  using assms
proof (induction w arbitrary: n m)
  case 0
  then show ?case by simp
next
  case (Suc w)
  have d: "n div 10 < 10 ^ w" "m div 10 < 10 ^ w"
    using Suc.prems by (simp_all only: div10_bound)
  have "zpad (Suc w) n = zpad (Suc w) m \<longleftrightarrow>
      zpad w (n div 10) = zpad w (m div 10) \<and> digit_char (n mod 10) = digit_char (m mod 10)"
    by simp
  also have "\<dots> \<longleftrightarrow> n div 10 = m div 10 \<and> n mod 10 = m mod 10"
    by (simp only: Suc.IH[OF d] digit_char_eq_iff[of "n mod 10" "m mod 10"] mod_less_divisor
        zero_less_numeral)
  also have "\<dots> \<longleftrightarrow> n = m"
    by (rule divmod10_eq)
  finally show ?case .
qed

lemma zpad_less_iff:
  assumes "n < 10 ^ w" and "m < 10 ^ w"
  shows "zpad w n < zpad w m \<longleftrightarrow> n < m"
  using assms
proof (induction w arbitrary: n m)
  case 0
  then show ?case by simp
next
  case (Suc w)
  have d: "n div 10 < 10 ^ w" "m div 10 < 10 ^ w"
    using Suc.prems by (simp_all only: div10_bound)
  have "zpad (Suc w) n < zpad (Suc w) m \<longleftrightarrow>
      zpad w (n div 10) < zpad w (m div 10) \<or>
      zpad w (n div 10) = zpad w (m div 10) \<and> [digit_char (n mod 10)] < [digit_char (m mod 10)]"
    by (simp only: zpad.simps lex_append[OF trans[OF length_zpad length_zpad[symmetric]]])
  also have "\<dots> \<longleftrightarrow> n div 10 < m div 10 \<or> n div 10 = m div 10 \<and> n mod 10 < m mod 10"
    using digit_char_less_iff[of "n mod 10" "m mod 10"]
    by (simp add: Suc.IH[OF d] zpad_eq_iff[OF d])
  also have "\<dots> \<longleftrightarrow> n < m"
    by (rule divmod10_less)
  finally show ?case .
qed

subsection \<open>Text forms of clock readings\<close>

lemma valid_bounds:
  assumes "valid_datetime d"
  shows "dt_year d < 10 ^ 4" "dt_month d < 10 ^ 2" "dt_day d < 10 ^ 2" "dt_hour d < 10 ^ 2"
    "dt_minute d < 10 ^ 2" "dt_second d < 10 ^ 2" "dt_microsecond d < 10 ^ 6"
  using assms by (auto simp: valid_datetime_def days_in_month_def split: if_splits)

lemma strftime_version_eq_iff:
  assumes "valid_datetime a" and "valid_datetime b"
  shows "strftime_version a = strftime_version b \<longleftrightarrow> same_second a b"
  using valid_bounds[OF assms(1)] valid_bounds[OF assms(2)]
  by (simp add: strftime_version_def same_second_def zpad_eq_iff)

lemma frac_less_iff:
  assumes "x < 10 ^ 6" and "y < 10 ^ 6"
  shows "(if x = 0 then [] else ''.'' @ zpad 6 x) < (if y = 0 then [] else ''.'' @ zpad 6 y)
     \<longleftrightarrow> x < y"
  using assms by (simp add: zpad_less_iff)

lemma isoformat_less_iff:
  assumes "valid_datetime a" and "valid_datetime b"
  shows "isoformat a < isoformat b \<longleftrightarrow> dt_less a b"
  using valid_bounds[OF assms(1)] valid_bounds[OF assms(2)]
  by (simp add: isoformat_def dt_less_def dt_fields_def lex_append zpad_less_iff zpad_eq_iff
      frac_less_iff del: One_nat_def)

lemma length_strftime_version [simp]: "length (strftime_version d) = 15"
  by (simp add: strftime_version_def)

lemma ex_time_valid: "s < 60 \<Longrightarrow> us < 1000000 \<Longrightarrow> valid_datetime (ex_time s us)"
  by (simp add: valid_datetime_def ex_time_def days_in_month_def)

subsection \<open>The concrete run, evaluated\<close>

lemma ex_trained_eval:
  "ex_trained = (init_manager ''models'')
     \<lparr>model_files := [''20250308_120000'' \<mapsto> Content ex_model],
      metadata_files := [''20250308_120000'' \<mapsto> Content
         \<lparr>md_version = ''20250308_120000'', md_created_at = isoformat (ex_time 0 500),
          md_r2_score = Some 0.9, md_rmse = 10000, md_training_samples = 800,
          md_model_path = ''models/model_20250308_120000.pkl'', md_status = Trained\<rparr>],
      model_versions :=
        [\<lparr>mv_version = ''20250308_120000'', mv_created_at = isoformat (ex_time 0 500),
          mv_r2_score = 0.9, mv_rmse = 10000, mv_training_samples = 800, mv_status = Trained\<rparr>]\<rparr>"
  by (simp add: ex_trained_def train_new_model_def ex_version0 Let_def init_manager_def
      ex_training_def model_path_def)

lemma ex_two_eval:
  "ex_two = (init_manager ''models'')
     \<lparr>model_files := [''20250308_120000'' \<mapsto> Content ex_model,
                      ''20250308_120030'' \<mapsto> Content ex_model],
      metadata_files := [''20250308_120000'' \<mapsto> Content
         \<lparr>md_version = ''20250308_120000'', md_created_at = isoformat (ex_time 0 500),
          md_r2_score = Some 0.9, md_rmse = 10000, md_training_samples = 800,
          md_model_path = ''models/model_20250308_120000.pkl'', md_status = Trained\<rparr>,
        ''20250308_120030'' \<mapsto> Content
         \<lparr>md_version = ''20250308_120030'', md_created_at = isoformat (ex_time 30 500),
          md_r2_score = Some 0.9, md_rmse = 10000, md_training_samples = 800,
          md_model_path = ''models/model_20250308_120030.pkl'', md_status = Trained\<rparr>],
      model_versions :=
        [\<lparr>mv_version = ''20250308_120000'', mv_created_at = isoformat (ex_time 0 500),
          mv_r2_score = 0.9, mv_rmse = 10000, mv_training_samples = 800, mv_status = Trained\<rparr>,
         \<lparr>mv_version = ''20250308_120030'', mv_created_at = isoformat (ex_time 30 500),
          mv_r2_score = 0.9, mv_rmse = 10000, mv_training_samples = 800, mv_status = Trained\<rparr>]\<rparr>"
  by (simp add: ex_two_def ex_trained_eval train_new_model_def ex_version30 Let_def
      init_manager_def ex_training_def model_path_def)

lemma ex_deployed_eval:
  "ex_deployed = ex_two
     \<lparr>current_model := Some ex_model,
      model_metadata := Some
         \<lparr>md_version = ''20250308_120000'', md_created_at = isoformat (ex_time 0 500),
          md_r2_score = Some 0.9, md_rmse = 10000, md_training_samples = 800,
          md_model_path = ''models/model_20250308_120000.pkl'', md_status = Trained\<rparr>,
      current_version := Some ''20250308_120000'',
      model_versions :=
        [\<lparr>mv_version = ''20250308_120000'', mv_created_at = isoformat (ex_time 0 500),
          mv_r2_score = 0.9, mv_rmse = 10000, mv_training_samples = 800, mv_status = Active\<rparr>,
         \<lparr>mv_version = ''20250308_120030'', mv_created_at = isoformat (ex_time 30 500),
          mv_r2_score = 0.9, mv_rmse = 10000, mv_training_samples = 800,
          mv_status = Inactive\<rparr>]\<rparr>"
  by (simp add: ex_deployed_def ex_two_eval deploy_model_def init_manager_def set_active_def
      set_others_inactive_def)

lemma ex_system_eval:
  "is_initialized ex_system" "sys_scaler ex_system = Some ex_scaler"
  "current_model (model_manager ex_system) = Some ex_model"
  "current_version (model_manager ex_system) = Some ''20250308_120000''"
  "predictions (model_manager ex_system) = []"
  by (simp_all add: ex_system_def initialize_system_def init_system_def train_new_model_def
      ex_version0 Let_def init_manager_def ex_training_def deploy_model_def)

subsection \<open>train_new_model\<close>

lemma train_new_model_result:
  "fst (train_new_model now1 now2 (Some t) s) =
     (if strftime_version now1 \<in> set (map mv_version (model_versions s))
      then Inl IntegrityError else Inr (strftime_version now1))"
  by (simp add: train_new_model_def Let_def)

lemma train_new_model_versions:
  "map mv_version (model_versions (snd (train_new_model now1 now2 (Some t) s))) =
     (if strftime_version now1 \<in> set (map mv_version (model_versions s))
      then map mv_version (model_versions s)
      else map mv_version (model_versions s) @ [strftime_version now1])"
  by (simp add: train_new_model_def Let_def)

text \<open>
  C9, as the code has it: the identifier is the clock reading cut to whole seconds. A
  training at \<open>b\<close> after a completed training at \<open>a\<close> gets the same identifier exactly
  when both readings lie in the same second, and then (as for any identifier that is
  already a key of the table) its \<^verbatim>\<open>INSERT\<close> fails with the primary key error;
  otherwise it completes with its own identifier.
\<close>

theorem version_collision_iff:
  assumes "valid_datetime a" and "valid_datetime b"
    and "fst (train_new_model a a' (Some t1) s) = Inr v"
  shows "v = strftime_version a \<and>
         (strftime_version b = v \<longleftrightarrow> same_second a b) \<and>
         fst (train_new_model b b' (Some t2) (snd (train_new_model a a' (Some t1) s))) =
           (if same_second a b \<or> strftime_version b \<in> set (map mv_version (model_versions s))
            then Inl IntegrityError else Inr (strftime_version b))"
proof -
  from assms(3) have fresh: "strftime_version a \<notin> set (map mv_version (model_versions s))"
    and v: "v = strftime_version a"
    by (auto simp: train_new_model_result split: if_splits)
  have same: "strftime_version b = strftime_version a \<longleftrightarrow> same_second a b"
    using strftime_version_eq_iff[OF assms(2) assms(1)] by (auto simp: same_second_def)
  show ?thesis
    using fresh same by (auto simp: v train_new_model_result train_new_model_versions)
qed

theorem version_collision_iff_witness:
  "valid_datetime (ex_time 0 0) \<and> valid_datetime (ex_time 30 0) \<and>
   fst (train_new_model (ex_time 0 0) (ex_time 0 500) (Some ex_training) (init_manager ''models''))
     = Inr ''20250308_120000'' \<and>
   \<not> same_second (ex_time 0 0) (ex_time 30 0) \<and>
   fst (train_new_model (ex_time 30 0) (ex_time 30 500) (Some ex_training) ex_trained)
     = Inr ''20250308_120030''"
proof -
  have a: "valid_datetime (ex_time 0 0)" and b: "valid_datetime (ex_time 30 0)"
    by (simp_all add: ex_time_valid)
  have first: "fst (train_new_model (ex_time 0 0) (ex_time 0 500) (Some ex_training)
      (init_manager ''models'')) = Inr ''20250308_120000''"
    by (simp add: train_new_model_result ex_version0 init_manager_def)
  have diff: "\<not> same_second (ex_time 0 0) (ex_time 30 0)"
    by (simp add: same_second_def ex_time_def)
  from version_collision_iff[OF a b first, of "ex_time 30 500" ex_training] diff
  have "fst (train_new_model (ex_time 30 0) (ex_time 30 500) (Some ex_training) ex_trained)
      = Inr (strftime_version (ex_time 30 0))"
    by (simp add: ex_trained_def init_manager_def)
  with a b first diff show ?thesis by (simp add: ex_version30)
qed

text \<open>
  C9 as stated fails: two trainings half a second apart, the second strictly later, get
  the same identifier, and the second insert collides with the first.
\<close>

theorem same_second_collision_counterexample:
  "dt_less (ex_time 0 0) (ex_time 0 500000) \<and>
   fst (train_new_model (ex_time 0 0) (ex_time 0 500) (Some ex_training) (init_manager ''models''))
     = Inr ''20250308_120000'' \<and>
   fst (train_new_model (ex_time 0 500000) (ex_time 0 500500) (Some ex_training) ex_trained)
     = Inl IntegrityError"
proof -
  have "dt_less (ex_time 0 0) (ex_time 0 500000)"
    by (simp add: dt_less_def dt_fields_def ex_time_def)
  then show ?thesis
    by (simp add: train_new_model_result ex_version0 init_manager_def ex_trained_eval)
qed

subsection \<open>deploy_model\<close>

lemma deploy_model_cases:
  "deploy_model version s =
     (case (model_files s version, metadata_files s version) of
        (Some (Content m), Some (Content md)) \<Rightarrow>
           (True, s\<lparr>current_model := Some m, model_metadata := Some md,
                    current_version := Some version,
                    model_versions :=
                      set_others_inactive version (set_active version (model_versions s))\<rparr>)
      | (Some (Content m), Some Corrupt) \<Rightarrow> (False, s\<lparr>current_model := Some m\<rparr>)
      | _ \<Rightarrow> (False, s))"
  by (simp add: deploy_model_def Let_def split: option.splits disk_file.splits)

lemma two_updates:
  "set_others_inactive version (set_active version rows) =
     map (\<lambda>r. r\<lparr>mv_status := (if mv_version r = version then Active else Inactive)\<rparr>) rows"
  by (simp add: set_others_inactive_def set_active_def)

lemma deploy_model_True:
  assumes "deploy_model version s = (True, s')"
  shows "model_versions s' = set_others_inactive version (set_active version (model_versions s))"
  using assms by (auto simp: deploy_model_cases split: option.splits disk_file.splits)




text \<open>
  C7, as the code has it: a successful deploy sets the status of the deployed version to
  \<open>Active\<close> and the status of every other row to \<open>Inactive\<close>, whatever it was; nothing
  else in the table changes.
\<close>

theorem deploy_statuses:
  assumes "deploy_model version s = (True, s')"
  shows "model_versions s' =
           map (\<lambda>r. r\<lparr>mv_status := (if mv_version r = version then Active else Inactive)\<rparr>)
             (model_versions s)"
  using deploy_model_True[OF assms] by (simp add: two_updates)

theorem deploy_statuses_witness:
  "fst (deploy_model ''20250308_120000'' ex_two) \<and>
   model_versions (snd (deploy_model ''20250308_120000'' ex_two)) =
     map (\<lambda>r. r\<lparr>mv_status :=
            (if mv_version r = ''20250308_120000'' then Active else Inactive)\<rparr>)
       (model_versions ex_two)"
proof -
  have succeeds: "fst (deploy_model ''20250308_120000'' ex_two)"
    by (simp add: deploy_model_cases ex_two_eval init_manager_def)
  then have ok: "deploy_model ''20250308_120000'' ex_two =
      (True, snd (deploy_model ''20250308_120000'' ex_two))"
    by (simp add: prod_eq_iff)
  from deploy_statuses[OF ok] succeeds show ?thesis by simp
qed

text \<open>
  C7 as stated fails: the second version was trained and never deployed, and deploying
  the first one turns its status from \<open>Trained\<close> into \<open>Inactive\<close>.
\<close>

theorem deploy_demotes_trained_counterexample:
  "map (\<lambda>r. (mv_version r, mv_status r)) (model_versions ex_two) =
     [(''20250308_120000'', Trained), (''20250308_120030'', Trained)] \<and>
   fst (deploy_model ''20250308_120000'' ex_two) \<and>
   map (\<lambda>r. (mv_version r, mv_status r))
     (model_versions (snd (deploy_model ''20250308_120000'' ex_two))) =
     [(''20250308_120000'', Active), (''20250308_120030'', Inactive)]"
  by (simp add: ex_two_eval deploy_model_def init_manager_def set_active_def
      set_others_inactive_def)

subsection \<open>What every run keeps true\<close>

lemma versions_after_updates [simp]:
  "map mv_version (set_others_inactive version (set_active version rows)) = map mv_version rows"
  by (simp add: two_updates comp_def)

lemma version_set_after_updates [simp]:
  "mv_version ` set (set_others_inactive version (set_active version rows)) =
     mv_version ` set rows"
proof -
  have "set (map mv_version (set_others_inactive version (set_active version rows))) =
      set (map mv_version rows)"
    by simp
  then show ?thesis by (simp only: set_map)
qed















subsection \<open>predict\<close>

lemma predict_without_model:
  "current_model s = None \<Longrightarrow> predict features log_prediction now s = (Inl ValueError, s)"
  by (simp add: predict_def)

lemma predict_with_model:
  assumes "current_model s = Some m" and "m_predict m features = Some (p # ps)"
  shows "fst (predict features log_prediction now s) =
           Inr \<lparr>res_prediction = p, res_confidence = confidence_of m,
                res_model_version = current_version s, res_timestamp = isoformat now\<rparr>"
  using assms by (simp add: predict_def Let_def)

text \<open>
  C5 at a failing run: one version is trained and its metadata file becomes unreadable.
  No deploy has succeeded and \<^verbatim>\<open>predict\<close> raises the \<^verbatim>\<open>ValueError\<close>; the deploy of
  the version fails; and after that failed deploy \<^verbatim>\<open>predict\<close> returns a prediction,
  with no model version.
\<close>

theorem predict_after_failed_deploy:
  "predict [[1, 2, 3]] True (ex_time 45 0) ex_damaged = (Inl ValueError, ex_damaged) \<and>
   \<not> fst (deploy_model ''20250308_120000'' ex_damaged) \<and>
   fst (predict [[1, 2, 3]] True (ex_time 45 0) (snd (deploy_model ''20250308_120000'' ex_damaged)))
     = Inr \<lparr>res_prediction = 6, res_confidence = 1 / 3, res_model_version = None,
            res_timestamp = isoformat (ex_time 45 0)\<rparr>"
  by (simp add: ex_damaged_def ex_trained_eval deploy_model_def init_manager_def predict_def
      Let_def ex_model_def confidence_of_def mean_def)

subsection \<open>start_monitoring\<close>

lemma start_monitoring_funpow:
  "monitor_threads ((start_monitoring ^^ n) m) = monitor_threads m + n"
  by (induction n) (simp_all add: start_monitoring_def)

text \<open>
  C8, as the code has it: after \<^verbatim>\<open>start_monitoring\<close> the flag is set, and every call
  starts one more thread, so \<open>n\<close> calls start \<open>n\<close> loops; a loop that tests the flag
  while it is set goes on.
\<close>

theorem start_monitoring_adds_thread:
  "monitoring (start_monitoring m) \<and>
   monitor_threads (start_monitoring m) = monitor_threads m + 1 \<and>
   monitor_threads ((start_monitoring ^^ n) m) = monitor_threads m + n \<and>
   fst (monitor_loop_step now1 now2 (start_monitoring m, s)) = start_monitoring m"
  by (simp add: start_monitoring_funpow) (simp add: start_monitoring_def monitor_loop_step_def)

text \<open>C8 as stated fails: the second call on a running monitor starts a second loop.\<close>

theorem start_monitoring_twice_counterexample:
  "monitoring (start_monitoring (init_monitor 3600)) \<and>
   monitor_threads (start_monitoring (init_monitor 3600)) = 1 \<and>
   monitor_threads (start_monitoring (start_monitoring (init_monitor 3600))) = 2"
  by (simp add: start_monitoring_def init_monitor_def)

subsection \<open>predict_house_price\<close>

text \<open>
  C4: when the estimator's prediction \<open>p\<close> for the scaled input is negative, the returned
  prediction is 50000 and the returned confidence is half the estimator's confidence;
  otherwise both are returned as the estimator gave them.
\<close>

theorem price_clamp:
  assumes "is_initialized sys" and "sys_scaler sys = Some sc"
    and "scaler_transform sc [[house_size, real_of_int bedrooms, real_of_int age]] = Some fs"
    and "current_model (model_manager sys) = Some m"
    and "m_predict m fs = Some (p # ps)"
  shows "\<exists>res. fst (predict_house_price house_size bedrooms age now sys) = Inr res \<and>
           res_prediction res = (if p < 0 then 50000 else p) \<and>
           res_confidence res = (if p < 0 then confidence_of m / 2 else confidence_of m)"
  using assms by (simp add: predict_house_price_def predict_def Let_def prediction_result.defs)

lemma ex_transform:
  "scaler_transform ex_scaler [[1000, real_of_int 2, real_of_int 30]] = Some [[- 2, - 1, 1]]"
  by (simp add: scaler_transform_def ex_scaler_def)

lemma ex_raw: "m_predict ex_model [[- 2, - 1, 1]] = Some [- 2]"
  by (simp add: ex_model_def)

lemma ex_confidence: "confidence_of ex_model = 1 / 3"
  by (simp add: confidence_of_def ex_model_def mean_def)

theorem price_clamp_witness:
  "\<exists>res. fst (predict_house_price 1000 2 30 (ex_time 45 0) ex_system) = Inr res \<and>
         res_prediction res = 50000 \<and> res_confidence res = 1 / 6"
  using price_clamp[OF ex_system_eval(1) ex_system_eval(2) ex_transform ex_system_eval(3) ex_raw,
      of "ex_time 45 0"]
  by (simp add: ex_confidence)



subsection \<open>retrain_model\<close>









subsection \<open>get_model_performance\<close>

lemma days_in_month_bounds: "28 \<le> days_in_month y m" "days_in_month y m \<le> 31"
  by (simp_all add: days_in_month_def)

lemma date_pred_valid:
  assumes "valid_datetime d" and "date_pred d = Some d'"
  shows "valid_datetime d'"
proof -
  have b: "1 \<le> days_in_month (dt_year d) (dt_month d - 1)"
    using days_in_month_bounds(1)[of "dt_year d" "dt_month d - 1"] by simp
  have dec: "days_in_month (dt_year d - 1) 12 = 31"
    by (simp add: days_in_month_def)
  show ?thesis
    using assms b dec
    by (auto simp: date_pred_def valid_datetime_def split: if_splits)
qed

lemma date_succ_valid:
  assumes "valid_datetime d" and "date_succ d = Some d'"
  shows "valid_datetime d'"
proof -
  have b: "1 \<le> days_in_month (dt_year d) (dt_month d + 1)"
    using days_in_month_bounds(1)[of "dt_year d" "dt_month d + 1"] by simp
  have jan: "1 \<le> days_in_month (dt_year d + 1) 1"
    by (simp add: days_in_month_def)
  show ?thesis
    using assms b jan
    by (auto simp: date_succ_def valid_datetime_def split: if_splits)
qed

lemma days_back_valid:
  "valid_datetime d \<Longrightarrow> days_back n d = Some d' \<Longrightarrow> valid_datetime d'"
  by (induction n arbitrary: d) (auto split: option.splits dest: date_pred_valid)

lemma days_forward_valid:
  "valid_datetime d \<Longrightarrow> days_forward n d = Some d' \<Longrightarrow> valid_datetime d'"
  by (induction n arbitrary: d) (auto split: option.splits dest: date_succ_valid)

lemma dt_minus_days_valid:
  assumes "valid_datetime d" and "dt_minus_days d days = Some d'"
  shows "valid_datetime d'"
  using assms by (auto simp: dt_minus_days_def split: if_splits
      dest: days_back_valid days_forward_valid)

lemma window_filter:
  assumes "logged_at rows readings" and "valid_datetime cutoff"
  shows "filter (\<lambda>r. isoformat cutoff < pr_timestamp r) rows = spec_window cutoff rows readings"
  using assms(1) unfolding logged_at_def
proof (induction rule: list_all2_induct)
  case Nil
  show ?case by (simp add: spec_window_def)
next
  case (Cons r rs t ts)
  then show ?case
    by (simp add: spec_window_def isoformat_less_iff[OF assms(2)])
qed

lemma collect_rows_eq:
  "collect_rows rows p =
     p\<lparr>models := models p @
          map (\<lambda>(count, avg_conf, version).
                 \<lparr>me_version = version, me_prediction_count = count,
                  me_avg_confidence = avg_conf\<rparr>) rows,
       total_predictions := total_predictions p + sum_list (map fst rows)\<rparr>"
  by (induction rows p rule: collect_rows.induct) simp_all

lemma sum_counts_aux:
  assumes "finite A" and "f ` set xs \<subseteq> A"
  shows "(\<Sum>v\<in>A. length (filter (\<lambda>r. f r = v) xs)) = length xs"
  using assms(2)
proof (induction xs)
  case Nil
  show ?case by simp
next
  case (Cons x xs)
  have "(\<Sum>v\<in>A. length (filter (\<lambda>r. f r = v) (x # xs))) =
      (\<Sum>v\<in>A. (if f x = v then 1 else 0) + length (filter (\<lambda>r. f r = v) xs))"
    by (rule sum.cong) simp_all
  also have "\<dots> = (\<Sum>v\<in>A. if f x = v then 1 else 0) + (\<Sum>v\<in>A. length (filter (\<lambda>r. f r = v) xs))"
    by (rule sum.distrib)
  also have "(\<Sum>v\<in>A. if f x = v then 1 else 0) = (1::nat)"
    using Cons.prems assms(1) by simp
  also have "(\<Sum>v\<in>A. length (filter (\<lambda>r. f r = v) xs)) = length xs"
    using Cons by simp
  finally show ?case by simp
qed

lemma sum_counts:
  "sum_list (map (\<lambda>v. length (filter (\<lambda>r. f r = v) xs)) (remdups (map f xs))) = length xs"
proof -
  have "sum_list (map (\<lambda>v. length (filter (\<lambda>r. f r = v) xs)) (remdups (map f xs))) =
      (\<Sum>v\<in>set (remdups (map f xs)). length (filter (\<lambda>r. f r = v) xs))"
    by (rule sum_list_distinct_conv_sum_set) simp
  also have "\<dots> = length xs"
    by (rule sum_counts_aux) simp_all
  finally show ?thesis .
qed

lemma select_performance_eq:
  "select_performance cutoff_date rows =
     map (\<lambda>v. (length (filter (\<lambda>r. pr_model_version r = v)
                         (filter (\<lambda>r. cutoff_date < pr_timestamp r) rows)),
                mean (map pr_confidence (filter (\<lambda>r. pr_model_version r = v)
                         (filter (\<lambda>r. cutoff_date < pr_timestamp r) rows))), v))
       (remdups (map pr_model_version (filter (\<lambda>r. cutoff_date < pr_timestamp r) rows)))"
  by (simp add: select_performance_def Let_def)

lemma performance_of_window:
  assumes "dt_minus_days now days = Some cutoff"
    and "filter (\<lambda>r. isoformat cutoff < pr_timestamp r) (predictions s) = w"
  shows "get_model_performance now days s =
     Inr \<lparr>period_days = days,
          models = map (\<lambda>v. \<lparr>me_version = v,
                     me_prediction_count = length (filter (\<lambda>r. pr_model_version r = v) w),
                     me_avg_confidence =
                       mean (map pr_confidence (filter (\<lambda>r. pr_model_version r = v) w))\<rparr>)
                   (remdups (map pr_model_version w)),
          total_predictions = length w\<rparr>"
  using assms sum_counts[of pr_model_version w]
  by (simp add: get_model_performance_def collect_rows_eq select_performance_eq comp_def)

text \<open>
  C6: the cutoff is \<open>now\<close> minus \<open>days\<close> days. When the timestamps of the logged rows
  are the ISO texts of valid clock readings, the query's comparison of texts selects
  exactly the rows whose reading is strictly later than the cutoff: the result has one
  entry per model version among these rows, with their number and their mean confidence,
  and the total is their number. No row with the cutoff's own timestamp is among them.
\<close>

theorem performance_window:
  assumes "valid_datetime now" and "dt_minus_days now days = Some cutoff"
    and "logged_at (predictions s) readings"
  shows "\<exists>perf. get_model_performance now days s = Inr perf \<and> period_days perf = days \<and>
     (let w = spec_window cutoff (predictions s) readings
      in total_predictions perf = length w \<and>
         distinct (map me_version (models perf)) \<and>
         set (map me_version (models perf)) = set (map pr_model_version w) \<and>
         (\<forall>e \<in> set (models perf).
            me_prediction_count e = length (filter (\<lambda>r. pr_model_version r = me_version e) w) \<and>
            me_avg_confidence e =
              mean (map pr_confidence (filter (\<lambda>r. pr_model_version r = me_version e) w))) \<and>
         (\<forall>r \<in> set w. pr_timestamp r \<noteq> isoformat cutoff))"
proof -
  have vc: "valid_datetime cutoff" by (rule dt_minus_days_valid[OF assms(1,2)])
  define w where "w = spec_window cutoff (predictions s) readings"
  have wf: "filter (\<lambda>r. isoformat cutoff < pr_timestamp r) (predictions s) = w"
    unfolding w_def by (rule window_filter[OF assms(3) vc])
  have excl: "\<forall>r \<in> set w. pr_timestamp r \<noteq> isoformat cutoff"
    unfolding wf[symmetric] by auto
  define perf where "perf =
     \<lparr>period_days = days,
      models = map (\<lambda>v. \<lparr>me_version = v,
                 me_prediction_count = length (filter (\<lambda>r. pr_model_version r = v) w),
                 me_avg_confidence =
                   mean (map pr_confidence (filter (\<lambda>r. pr_model_version r = v) w))\<rparr>)
               (remdups (map pr_model_version w)),
      total_predictions = length w\<rparr>"
  have result: "get_model_performance now days s = Inr perf"
    unfolding perf_def by (rule performance_of_window[OF assms(2) wf])
  have versions: "map me_version (models perf) = remdups (map pr_model_version w)"
    by (simp add: perf_def comp_def)
  have entries: "\<forall>e \<in> set (models perf).
      me_prediction_count e = length (filter (\<lambda>r. pr_model_version r = me_version e) w) \<and>
      me_avg_confidence e =
        mean (map pr_confidence (filter (\<lambda>r. pr_model_version r = me_version e) w))"
    by (auto simp: perf_def)
  have fields: "period_days perf = days" "total_predictions perf = length w"
    by (simp_all add: perf_def)
  show ?thesis
    unfolding w_def[symmetric] Let_def
    using result versions entries fields excl by (intro exI[of _ perf]) simp
qed

text \<open>
  Ten days before 8 March 2025, 12:00:00 is 26 February, 12:00:00: of the four logged
  rows the one of 20 February and the one at the cutoff itself are left out.
\<close>

lemma days_back_numeral:
  "days_back (numeral k) d =
     (case date_pred d of None \<Rightarrow> None | Some d' \<Rightarrow> days_back (pred_numeral k) d')"
  by (simp add: numeral_eq_Suc)

lemma ex_cutoff: "dt_minus_days (ex_time 0 0) 10 = Some (ex_day 2 26 0)"
  by (simp add: dt_minus_days_def days_back_numeral date_pred_def days_in_month_def is_leap_def
      ex_time_def ex_day_def)

lemma ex_day_valid:
  "1 \<le> m \<Longrightarrow> m \<le> 12 \<Longrightarrow> 1 \<le> d \<Longrightarrow> d \<le> 28 \<Longrightarrow> us < 1000000 \<Longrightarrow> valid_datetime (ex_day m d us)"
  by (simp add: valid_datetime_def ex_day_def days_in_month_def)

lemma predict_frame [simp]:
  "current_model (snd (predict features log_prediction now s)) = current_model s"
  "current_version (snd (predict features log_prediction now s)) = current_version s"
  "model_files (snd (predict features log_prediction now s)) = model_files s"
  "metadata_files (snd (predict features log_prediction now s)) = metadata_files s"
  by (simp_all add: predict_def Let_def split: option.splits list.splits)

lemma predict_logged:
  assumes "current_model s = Some m" and "m_predict m features = Some (p # ps)"
  shows "predictions (snd (predict features True now s)) =
     predictions s @
       [\<lparr>pr_timestamp = isoformat now, pr_model_version = current_version s,
         pr_input_features = features, pr_prediction = p, pr_confidence = confidence_of m\<rparr>]"
  using assms by (simp add: predict_def Let_def)

lemma deploy_model_ok:
  assumes "model_files s version = Some (Content m)"
    and "metadata_files s version = Some (Content md)"
  shows "current_model (snd (deploy_model version s)) = Some m"
    "current_version (snd (deploy_model version s)) = Some version"
    "predictions (snd (deploy_model version s)) = predictions s"
  using assms by (simp_all add: deploy_model_cases)

lemma ex_deployed_fields:
  "current_model ex_deployed = Some ex_model"
  "current_version ex_deployed = Some ''20250308_120000''"
  "predictions ex_deployed = []"
  "model_files ex_deployed ''20250308_120030'' = Some (Content ex_model)"
  "\<exists>md. metadata_files ex_deployed ''20250308_120030'' = Some (Content md)"
  by (simp_all add: ex_deployed_eval ex_two_eval init_manager_def)

lemma ex_zero: "m_predict ex_model [[0, 0, 0]] = Some [0]"
  by (simp add: ex_model_def)

lemma ex_logged_predictions:
  "predictions ex_logged =
     [\<lparr>pr_timestamp = isoformat (ex_day 2 20 0), pr_model_version = Some ''20250308_120000'',
       pr_input_features = [[0, 0, 0]], pr_prediction = 0, pr_confidence = 1 / 3\<rparr>,
      \<lparr>pr_timestamp = isoformat (ex_day 2 26 0), pr_model_version = Some ''20250308_120000'',
       pr_input_features = [[0, 0, 0]], pr_prediction = 0, pr_confidence = 1 / 3\<rparr>,
      \<lparr>pr_timestamp = isoformat (ex_day 2 26 5), pr_model_version = Some ''20250308_120000'',
       pr_input_features = [[0, 0, 0]], pr_prediction = 0, pr_confidence = 1 / 3\<rparr>,
      \<lparr>pr_timestamp = isoformat (ex_day 3 8 0), pr_model_version = Some ''20250308_120030'',
       pr_input_features = [[0, 0, 0]], pr_prediction = 0, pr_confidence = 1 / 3\<rparr>]"
proof -
  define s1 where "s1 = snd (predict [[0, 0, 0]] True (ex_day 2 20 0) ex_deployed)"
  define s2 where "s2 = snd (predict [[0, 0, 0]] True (ex_day 2 26 0) s1)"
  define s3 where "s3 = snd (predict [[0, 0, 0]] True (ex_day 2 26 5) s2)"
  define s4 where "s4 = snd (deploy_model ''20250308_120030'' s3)"
  have logged: "ex_logged = snd (predict [[0, 0, 0]] True (ex_day 3 8 0) s4)"
    by (simp add: ex_logged_def s1_def s2_def s3_def s4_def)
  have p1: "predictions s1 =
      [\<lparr>pr_timestamp = isoformat (ex_day 2 20 0), pr_model_version = Some ''20250308_120000'',
        pr_input_features = [[0, 0, 0]], pr_prediction = 0, pr_confidence = 1 / 3\<rparr>]"
    unfolding s1_def
    by (simp add: predict_logged[OF ex_deployed_fields(1) ex_zero] ex_deployed_fields ex_confidence)
  have m1: "current_model s1 = Some ex_model" "current_version s1 = Some ''20250308_120000''"
    by (simp_all add: s1_def ex_deployed_fields)
  have p2: "predictions s2 = predictions s1 @
      [\<lparr>pr_timestamp = isoformat (ex_day 2 26 0), pr_model_version = Some ''20250308_120000'',
        pr_input_features = [[0, 0, 0]], pr_prediction = 0, pr_confidence = 1 / 3\<rparr>]"
    unfolding s2_def by (simp add: predict_logged[OF m1(1) ex_zero] m1 ex_confidence)
  have m2: "current_model s2 = Some ex_model" "current_version s2 = Some ''20250308_120000''"
    by (simp_all add: s2_def m1)
  have p3: "predictions s3 = predictions s2 @
      [\<lparr>pr_timestamp = isoformat (ex_day 2 26 5), pr_model_version = Some ''20250308_120000'',
        pr_input_features = [[0, 0, 0]], pr_prediction = 0, pr_confidence = 1 / 3\<rparr>]"
    unfolding s3_def by (simp add: predict_logged[OF m2(1) ex_zero] m2 ex_confidence)
  have f3: "model_files s3 ''20250308_120030'' = Some (Content ex_model)"
    "\<exists>md. metadata_files s3 ''20250308_120030'' = Some (Content md)"
    using ex_deployed_fields(5) by (simp_all add: s3_def s2_def s1_def ex_deployed_fields)
  then obtain md where md: "metadata_files s3 ''20250308_120030'' = Some (Content md)"
    by blast
  have m4: "current_model s4 = Some ex_model" "current_version s4 = Some ''20250308_120030''"
    "predictions s4 = predictions s3"
    unfolding s4_def by (simp_all add: deploy_model_ok[OF f3(1) md])
  have "predictions ex_logged = predictions s4 @
      [\<lparr>pr_timestamp = isoformat (ex_day 3 8 0), pr_model_version = Some ''20250308_120030'',
        pr_input_features = [[0, 0, 0]], pr_prediction = 0, pr_confidence = 1 / 3\<rparr>]"
    unfolding logged by (simp add: predict_logged[OF m4(1) ex_zero] m4 ex_confidence)
  then show ?thesis by (simp add: m4 p3 p2 p1)
qed

lemma ex_logged_at: "logged_at (predictions ex_logged) ex_times"
  by (simp add: logged_at_def ex_logged_predictions ex_times_def ex_day_valid)

lemma ex_window:
  "spec_window (ex_day 2 26 0) (predictions ex_logged) ex_times =
     [\<lparr>pr_timestamp = isoformat (ex_day 2 26 5), pr_model_version = Some ''20250308_120000'',
       pr_input_features = [[0, 0, 0]], pr_prediction = 0, pr_confidence = 1 / 3\<rparr>,
      \<lparr>pr_timestamp = isoformat (ex_day 3 8 0), pr_model_version = Some ''20250308_120030'',
       pr_input_features = [[0, 0, 0]], pr_prediction = 0, pr_confidence = 1 / 3\<rparr>]"
proof -
  have "\<not> dt_less (ex_day 2 26 0) (ex_day 2 20 0)" "\<not> dt_less (ex_day 2 26 0) (ex_day 2 26 0)"
    "dt_less (ex_day 2 26 0) (ex_day 2 26 5)" "dt_less (ex_day 2 26 0) (ex_day 3 8 0)"
    by (simp_all add: dt_less_def dt_fields_def ex_day_def)
  then show ?thesis
    by (simp add: spec_window_def ex_logged_predictions ex_times_def)
qed

theorem performance_window_witness:
  "valid_datetime (ex_time 0 0) \<and> dt_minus_days (ex_time 0 0) 10 = Some (ex_day 2 26 0) \<and>
   logged_at (predictions ex_logged) ex_times \<and>
   map pr_timestamp (predictions ex_logged) =
     map isoformat [ex_day 2 20 0, ex_day 2 26 0, ex_day 2 26 5, ex_day 3 8 0] \<and>
   (\<exists>perf. get_model_performance (ex_time 0 0) 10 ex_logged = Inr perf \<and>
      period_days perf = 10 \<and> total_predictions perf = 2 \<and>
      set (map me_version (models perf)) = {Some ''20250308_120000'', Some ''20250308_120030''} \<and>
      list_all (\<lambda>e. me_prediction_count e = 1 \<and> me_avg_confidence e = 1 / 3) (models perf))"
proof -
  define w where "w =
     [\<lparr>pr_timestamp = isoformat (ex_day 2 26 5), pr_model_version = Some ''20250308_120000'',
       pr_input_features = [[0, 0, 0]], pr_prediction = 0, pr_confidence = 1 / 3\<rparr>,
      \<lparr>pr_timestamp = isoformat (ex_day 3 8 0), pr_model_version = Some ''20250308_120030'',
       pr_input_features = [[0, 0, 0]], pr_prediction = 0, pr_confidence = 1 / 3\<rparr>]"
  have win: "spec_window (ex_day 2 26 0) (predictions ex_logged) ex_times = w"
    unfolding w_def by (rule ex_window)
  have now: "valid_datetime (ex_time 0 0)" by (simp add: ex_time_valid)
  from performance_window[OF now ex_cutoff ex_logged_at, unfolded Let_def win]
  obtain perf where result: "get_model_performance (ex_time 0 0) 10 ex_logged = Inr perf"
    and period: "period_days perf = 10"
    and total: "total_predictions perf = length w"
    and versions: "set (map me_version (models perf)) = set (map pr_model_version w)"
    and entries: "\<forall>e \<in> set (models perf).
         me_prediction_count e = length (filter (\<lambda>r. pr_model_version r = me_version e) w) \<and>
         me_avg_confidence e =
           mean (map pr_confidence (filter (\<lambda>r. pr_model_version r = me_version e) w))"
    by blast
  have count1: "length (filter (\<lambda>r. pr_model_version r = v) w) = 1"
    and avg1: "mean (map pr_confidence (filter (\<lambda>r. pr_model_version r = v) w)) = 1 / 3"
    if "v = Some ''20250308_120000'' \<or> v = Some ''20250308_120030''" for v
    using that by (auto simp: w_def mean_def)
  have vs: "set (map pr_model_version w) = {Some ''20250308_120000'', Some ''20250308_120030''}"
    by (simp add: w_def)
  have each: "list_all (\<lambda>e. me_prediction_count e = 1 \<and> me_avg_confidence e = 1 / 3) (models perf)"
    unfolding list_all_iff
  proof
    fix e assume e: "e \<in> set (models perf)"
    then have "me_version e \<in> set (map me_version (models perf))" by simp
    then have v: "me_version e = Some ''20250308_120000'' \<or> me_version e = Some ''20250308_120030''"
      unfolding versions vs by simp
    from entries e have "me_prediction_count e =
        length (filter (\<lambda>r. pr_model_version r = me_version e) w)"
      and "me_avg_confidence e =
        mean (map pr_confidence (filter (\<lambda>r. pr_model_version r = me_version e) w))"
      by blast+
    then show "me_prediction_count e = 1 \<and> me_avg_confidence e = 1 / 3"
      by (simp only: count1[OF v] avg1[OF v])
  qed
  have stamps: "map pr_timestamp (predictions ex_logged) =
      map isoformat [ex_day 2 20 0, ex_day 2 26 0, ex_day 2 26 5, ex_day 3 8 0]"
    by (simp add: ex_logged_predictions)
  have two: "length w = 2" by (simp add: w_def)
  have "\<exists>perf. get_model_performance (ex_time 0 0) 10 ex_logged = Inr perf \<and>
      period_days perf = 10 \<and> total_predictions perf = 2 \<and>
      set (map me_version (models perf)) = {Some ''20250308_120000'', Some ''20250308_120030''} \<and>
      list_all (\<lambda>e. me_prediction_count e = 1 \<and> me_avg_confidence e = 1 / 3) (models perf)"
    using result period total[unfolded two] versions[unfolded vs] each
    by (intro exI[of _ perf] conjI)
  with now ex_cutoff ex_logged_at stamps show ?thesis
    by (intro conjI)
qed

end
